theory Spec2Isabelle
  imports Complex_Main
begin

section \<open>WeightKnob (src/components/WeightKnob.ts)\<close>

text \<open>
  A JavaScript Number is modelled by the real number it denotes: the arithmetic of the
  handlers (\<open>+\<close>, \<open>-\<close>, \<open>*\<close>, \<open>/ 2\<close>, \<open>Math.min\<close>, \<open>Math.max\<close>) is exact in the
  model, and the IEEE 754 special values (NaN, the infinities, the negative zero) are not
  part of it.
\<close>

text \<open>The three constants at the head of the file.\<close>

definition MIN_HALO_SCALE :: real where
  "MIN_HALO_SCALE = 1"

definition MAX_HALO_SCALE :: real where
  "MAX_HALO_SCALE = 2"

definition HALO_LEVEL_MODIFIER :: real where
  "HALO_LEVEL_MODIFIER = 1"

text \<open>
  The fields of the element that the handlers read and write. The source's property
  \<open>value\<close> is \<open>knob_value\<close> here and \<open>color\<close> is \<open>knob_color\<close>. The effects on the
  page are fields too: \<open>body_dragging\<close> is the class \<open>dragging\<close> on \<open>document.body\<close>,
  \<open>window_listeners\<close> says whether the \<open>pointermove\<close> and \<open>pointerup\<close> listeners are
  registered on \<open>window\<close>, and \<open>input_events\<close> holds the \<open>detail\<close> of every \<open>input\<close>
  event dispatched so far, oldest first.
\<close>

record WeightKnob =
  knob_value :: real
  knob_color :: string
  audioLevel :: real
  dragStartPos :: real
  dragStartValue :: real
  body_dragging :: bool
  window_listeners :: bool
  input_events :: "real list"

definition handlePointerDown :: "WeightKnob \<Rightarrow> real \<Rightarrow> WeightKnob" where
  "handlePointerDown k clientY =
     k\<lparr>dragStartPos := clientY,
       dragStartValue := knob_value k,
       body_dragging := True,
       window_listeners := True\<rparr>"

definition handlePointerMove :: "WeightKnob \<Rightarrow> real \<Rightarrow> WeightKnob" where
  "handlePointerMove k clientY =
     (let delta = dragStartPos k - clientY;
          v = dragStartValue k + delta * 0.01;
          v' = max 0 (min 2 v)
      in k\<lparr>knob_value := v', input_events := input_events k @ [v']\<rparr>)"

definition handlePointerUp :: "WeightKnob \<Rightarrow> WeightKnob" where
  "handlePointerUp k = k\<lparr>window_listeners := False, body_dragging := False\<rparr>"

definition handleWheel :: "WeightKnob \<Rightarrow> real \<Rightarrow> WeightKnob" where
  "handleWheel k deltaY =
     (let delta = deltaY;
          v = knob_value k + delta * - 0.0025;
          v' = max 0 (min 2 v)
      in k\<lparr>knob_value := v', input_events := input_events k @ [v']\<rparr>)"

text \<open>
  \<open>render\<close> computes the halo's style from the fields and dispatches nothing: the model
  keeps the two numbers the style is made of, the \<open>scale\<close> of the transform and whether
  the halo is displayed.
\<close>

definition render_scale :: "WeightKnob \<Rightarrow> real" where
  "render_scale k =
     (let scale = (knob_value k / 2) * (MAX_HALO_SCALE - MIN_HALO_SCALE);
          scale = scale + MIN_HALO_SCALE;
          scale = scale + audioLevel k * HALO_LEVEL_MODIFIER
      in scale)"

definition render_display :: "WeightKnob \<Rightarrow> bool" where
  "render_display k = (knob_value k > 0)"

text \<open>
  \<open>audioLevel\<close> is a reactive property (\<open>@property({ type: Number })\<close>) with no
  accessor of its own in the class: supplying a level is the assignment of the field,
  after which the element is rendered again.
\<close>

definition set_audioLevel :: "WeightKnob \<Rightarrow> real \<Rightarrow> WeightKnob" where
  "set_audioLevel k level = k\<lparr>audioLevel := level\<rparr>"

text \<open>A knob as the class's field initialisers leave it.\<close>

definition new_WeightKnob :: WeightKnob where
  "new_WeightKnob =
     \<lparr>knob_value = 0, knob_color = ''#000'', audioLevel = 0, dragStartPos = 0,
      dragStartValue = 0, body_dragging = False, window_listeners = False,
      input_events = []\<rparr>"

text \<open>
  The events a knob receives between \<open>pointerdown\<close> and \<open>pointerup\<close>: pointer moves,
  and wheel events, which the element accepts at any time.
\<close>

datatype gesture = PointerMove real | Wheel real

fun deliver :: "WeightKnob \<Rightarrow> gesture \<Rightarrow> WeightKnob" where
  "deliver k (PointerMove y) = handlePointerMove k y"
| "deliver k (Wheel d) = handleWheel k d"

section \<open>PromptDjMidi (src/components/PromptDjMidi.ts)\<close>

subsection \<open>Strings and numbers\<close>

text \<open>
  A JavaScript string is a sequence of UTF-16 code units, each a number below \<open>2^16\<close>:
  what \<open>length\<close> counts and \<open>String.prototype.trim\<close> looks at. \<open>js\<close> is the string
  of an ASCII literal. (The messages of \<open>console.error\<close> and of the error event are
  constants of the source and stay literals.)
\<close>

type_synonym code_unit = nat

type_synonym jsstring = "code_unit list"

definition js :: "string \<Rightarrow> jsstring" where
  "js s = map of_char s"

text \<open>
  \<open>String.prototype.trim\<close> removes the white space and the line terminators of
  ECMAScript at both ends: tab, line feed, vertical tab, form feed, carriage return,
  space, U+00A0, U+1680, U+2000 to U+200A, U+2028, U+2029, U+202F, U+205F, U+3000 and
  U+FEFF.
\<close>

definition is_white_space :: "code_unit \<Rightarrow> bool" where
  "is_white_space c =
     (c \<in> {0x09, 0x0A, 0x0B, 0x0C, 0x0D, 0x20, 0xA0, 0x1680, 0x2028, 0x2029, 0x202F, 0x205F,
           0x3000, 0xFEFF} \<or>
      (0x2000 \<le> c \<and> c \<le> 0x200A))"

definition trim :: "jsstring \<Rightarrow> jsstring" where
  "trim s = rev (dropWhile is_white_space (rev (dropWhile is_white_space s)))"

text \<open>
  What the field \<open>weight\<close> of a \<open>Prompt\<close> object holds at run time. A Number is a
  finite value (\<open>Num r\<close>, a real as for the knob; \<open>Num 0\<close> is the positive zero), the
  negative zero, NaN or an infinity. \<open>Null\<close> is \<open>null\<close>, which \<open>JSON.parse\<close> leaves
  in the field when the weight that was saved had no JSON numeral.
\<close>

datatype jsnumber = Num real | NegZero | NaN | PosInfinity | NegInfinity | Null

text \<open>
  What \<open>JSON.stringify\<close> writes for a number, as the value \<open>JSON.parse\<close> reads back:
  a finite number is written as a numeral that denotes it, the negative zero as \<open>0\<close>,
  NaN and the infinities as \<open>null\<close>.
\<close>

fun JSON_number :: "jsnumber \<Rightarrow> jsnumber" where
  "JSON_number (Num r) = Num r"
| "JSON_number NegZero = Num 0"
| "JSON_number NaN = Null"
| "JSON_number PosInfinity = Null"
| "JSON_number NegInfinity = Null"
| "JSON_number Null = Null"

text \<open>The weights that come back as they were: the finite numbers other than \<open>-0\<close>.\<close>

fun JSON_exact :: "jsnumber \<Rightarrow> bool" where
  "JSON_exact (Num r) = True"
| "JSON_exact w = False"

subsection \<open>Prompts, Maps and the store\<close>

text \<open>
  Modelled from the spec: the type \<open>Prompt\<close> of \<open>src/types\<close>, which is imported by the
  component and is not among the source files. Section 3 of the spec gives its fields:
  an identifier, a text, a weight (a float), a MIDI control-change channel (an integer)
  and a display colour. The source's field \<open>text\<close> is \<open>prompt_text\<close> here.
\<close>

record Prompt =
  promptId :: jsstring
  prompt_text :: jsstring
  weight :: jsnumber
  cc :: int
  color :: jsstring

text \<open>
  Objects are shared and mutated, so they live in a store and are named by references.
  A \<open>Map\<close> object is the list of its entries in insertion order, each value a
  reference to a \<open>Prompt\<close> object.
\<close>

type_synonym ref = nat

type_synonym 'v entries = "(jsstring \<times> 'v) list"

definition Map_get :: "'v entries \<Rightarrow> jsstring \<Rightarrow> 'v option" where
  "Map_get m k = map_of m k"

text \<open>\<open>Map.prototype.set\<close>: a key already present keeps its place, a new key goes last.\<close>

fun Map_set :: "'v entries \<Rightarrow> jsstring \<Rightarrow> 'v \<Rightarrow> 'v entries" where
  "Map_set [] k v = [(k, v)]"
| "Map_set ((k', v') # m) k v =
     (if k' = k then (k', v) # m else (k', v') # Map_set m k v)"

text \<open>\<open>new Map(iterable)\<close>: the entries are set one after the other on an empty Map.\<close>

definition new_Map :: "'v entries \<Rightarrow> 'v entries" where
  "new_Map es = foldl (\<lambda>m (k, v). Map_set m k v) [] es"

subsection \<open>Plain objects used as dictionaries\<close>

text \<open>
  \<open>this.presets\<close> is a plain object (\<open>Record<string, string>\<close>), modelled by the list
  of its own properties in the order \<open>Object.keys\<close> lists them: the array indices first,
  in ascending order, then the other names in the order of their creation.
\<close>

definition is_digit :: "code_unit \<Rightarrow> bool" where
  "is_digit c = (48 \<le> c \<and> c \<le> 57)"

text \<open>An array index is a canonical decimal numeral below \<open>2^32 - 1\<close>.\<close>

definition array_index :: "jsstring \<Rightarrow> nat option" where
  "array_index s =
     (if s \<noteq> [] \<and> list_all is_digit s \<and> (s = [48] \<or> hd s \<noteq> 48)
      then (let n = foldl (\<lambda>a c. 10 * a + (c - 48)) 0 s
            in if n < 2 ^ 32 - 1 then Some n else None)
      else None)"

text \<open>The own property of a name, if there is one.\<close>

definition obj_get :: "'v entries \<Rightarrow> jsstring \<Rightarrow> 'v option" where
  "obj_get ob k = map_of ob k"

text \<open>
  The prototype of a plain object is \<open>Object.prototype\<close>, and a property read goes on
  there when the object has no own property of the name. These are the names
  \<open>Object.prototype\<close> defines: methods, and the accessor \<open>__proto__\<close>, whose getter returns
  \<open>Object.prototype\<close> itself.
\<close>

definition Object_prototype_names :: "jsstring list" where
  "Object_prototype_names =
     map js [''constructor'', ''__defineGetter__'', ''__defineSetter__'', ''hasOwnProperty'',
       ''__lookupGetter__'', ''__lookupSetter__'', ''isPrototypeOf'', ''propertyIsEnumerable'',
       ''toString'', ''valueOf'', ''__proto__'', ''toLocaleString'']"

text \<open>
  The result of the property read \<open>ob[k]\<close>: the value of the own property, else the
  function or object inherited from \<open>Object.prototype\<close>, else \<open>undefined\<close>.
\<close>

datatype 'v property = Undefined | Own 'v | Inherited

definition obj_read :: "'v entries \<Rightarrow> jsstring \<Rightarrow> 'v property" where
  "obj_read ob k =
     (case obj_get ob k of
        Some v \<Rightarrow> Own v
      | None \<Rightarrow> if k \<in> set Object_prototype_names then Inherited else Undefined)"

text \<open>
  A property read of a \<open>Record<string, string>\<close> used as a condition: \<open>undefined\<close> and
  the empty string are falsy, a function or an object is truthy.
\<close>

definition truthy :: "jsstring property \<Rightarrow> bool" where
  "truthy v = (case v of Undefined \<Rightarrow> False | Own s \<Rightarrow> s \<noteq> [] | Inherited \<Rightarrow> True)"

text \<open>The place of a property that is created.\<close>

fun obj_insert :: "'v entries \<Rightarrow> jsstring \<Rightarrow> 'v \<Rightarrow> 'v entries" where
  "obj_insert [] k v = [(k, v)]"
| "obj_insert ((k', v') # ob) k v =
     (case array_index k of
        None \<Rightarrow> (k', v') # obj_insert ob k v
      | Some n \<Rightarrow>
          (case array_index k' of
             None \<Rightarrow> (k, v) # (k', v') # ob
           | Some n' \<Rightarrow>
               if n < n' then (k, v) # (k', v') # ob else (k', v') # obj_insert ob k v))"

text \<open>
  The assignment \<open>ob[k] = v\<close> of a string \<open>v\<close>. An own property takes the value. With
  no own property, the name \<open>__proto__\<close> reaches the setter of \<open>Object.prototype\<close>, which
  ignores a value that is not an object: nothing is created. Every other name is
  created as an own property.
\<close>

definition obj_set :: "'v entries \<Rightarrow> jsstring \<Rightarrow> 'v \<Rightarrow> 'v entries" where
  "obj_set ob k v =
     (case obj_get ob k of
        Some _ \<Rightarrow> map (\<lambda>(k', v'). if k' = k then (k', v) else (k', v')) ob
      | None \<Rightarrow> if k = js ''__proto__'' then ob else obj_insert ob k v)"

text \<open>\<open>delete ob[k]\<close> removes the own property, if there is one.\<close>

definition obj_delete :: "'v entries \<Rightarrow> jsstring \<Rightarrow> 'v entries" where
  "obj_delete ob k = filter (\<lambda>(k', v'). k' \<noteq> k) ob"

definition Object_keys :: "'v entries \<Rightarrow> jsstring list" where
  "Object_keys ob = map fst ob"

text \<open>
  The spread \<open>{ ...ob }\<close> creates the own properties of \<open>ob\<close> on a new object in the
  order of \<open>ob\<close>, which is the order they have there too.
\<close>

definition spread :: "'v entries \<Rightarrow> 'v entries" where
  "spread ob = ob"

subsection \<open>The platform's JSON\<close>

text \<open>
  \<open>JSON.stringify\<close> and \<open>JSON.parse\<close> belong to the platform, not to the component. What
  \<open>JSON.stringify\<close> does to the values is in the model: \<open>JSON_image\<close> is the array as
  JSON can denote it, every weight replaced by \<open>JSON_number\<close> of it (strings and integers
  are denoted as they are). How a JSON value is written as a text and read from one is
  a parameter of the model, at the two types the component uses: the array of
  \<open>[identifier, Prompt]\<close> pairs of a preset's payload, and the object from preset names to
  payloads that is kept in \<open>localStorage\<close>. \<open>JSON.parse\<close> returns \<open>None\<close> where it throws
  a \<open>SyntaxError\<close>; a text that denotes a value of another shape than the type
  annotation of the source says is not in the model. What a theorem needs of the
  parameters is a hypothesis of that theorem.
\<close>

record codec =
  JSON_write_entries :: "Prompt entries \<Rightarrow> jsstring"
  JSON_parse_entries :: "jsstring \<Rightarrow> Prompt entries option"
  JSON_stringify_presets :: "jsstring entries \<Rightarrow> jsstring"
  JSON_parse_presets :: "jsstring \<Rightarrow> jsstring entries option"

definition JSON_image :: "Prompt entries \<Rightarrow> Prompt entries" where
  "JSON_image es = map (\<lambda>(k, p). (k, p\<lparr>weight := JSON_number (weight p)\<rparr>)) es"

definition JSON_stringify_entries :: "codec \<Rightarrow> Prompt entries \<Rightarrow> jsstring" where
  "JSON_stringify_entries J es = JSON_write_entries J (JSON_image es)"

datatype exn = SyntaxError

subsection \<open>The component's state\<close>

text \<open>The events the component dispatches to its host, with their \<open>detail\<close>.\<close>

datatype event = PromptsChanged ref | ErrorEvent string

text \<open>
  \<open>prompt_objs\<close> and \<open>map_objs\<close> are the store: the \<open>Prompt\<close> objects and the \<open>Map\<close>
  objects by reference; \<open>next_ref\<close> is the next reference to allocate. \<open>prompts\<close> is
  the field \<open>this.prompts\<close>, a reference to a \<open>Map\<close>. \<open>localStorage\<close> is the
  platform's store, \<open>dispatched\<close> the events dispatched so far (oldest first),
  \<open>console_errors\<close> the messages of \<open>console.error\<close> and \<open>update_requests\<close> the number
  of calls of \<open>requestUpdate\<close>.
\<close>

record PromptDjMidi =
  prompt_objs :: "ref \<Rightarrow> Prompt"
  map_objs :: "ref \<Rightarrow> ref entries"
  next_ref :: ref
  prompts :: ref
  presets :: "jsstring entries"
  selectedPresetName :: jsstring
  localStorage :: "jsstring \<Rightarrow> jsstring option"
  dispatched :: "event list"
  console_errors :: "string list"
  update_requests :: nat

text \<open>
  What a consumer that holds the reference \<open>r\<close> to a published Map reads through it in
  the state \<open>s\<close>: the identifiers in order, each with the fields of its \<open>Prompt\<close>.
\<close>

definition collection :: "PromptDjMidi \<Rightarrow> ref \<Rightarrow> Prompt entries" where
  "collection s r = map (\<lambda>(k, a). (k, prompt_objs s a)) (map_objs s r)"

definition presets_key :: jsstring where
  "presets_key = js ''prompt-dj-presets''"

subsection \<open>The handlers\<close>

text \<open>The argument \<open>e\<close> is the \<open>detail\<close> of the \<open>prompt-changed\<close> event.\<close>

definition handlePromptChanged :: "PromptDjMidi \<Rightarrow> Prompt \<Rightarrow> PromptDjMidi" where
  "handlePromptChanged s e =
     (case Map_get (map_objs s (prompts s)) (promptId e) of
        None \<Rightarrow> s\<lparr>console_errors := console_errors s @ [''prompt not found'']\<rparr>
      | Some a \<Rightarrow>
          (let prompt = (prompt_objs s a)
                 \<lparr>prompt_text := prompt_text e, weight := weight e, cc := cc e\<rparr>;
               newPrompts = Map_set (new_Map (map_objs s (prompts s))) (promptId e) a;
               r = next_ref s
           in s\<lparr>prompt_objs := (prompt_objs s)(a := prompt),
                map_objs := (map_objs s)(r := newPrompts),
                next_ref := Suc r,
                prompts := r,
                update_requests := Suc (update_requests s),
                dispatched := dispatched s @ [PromptsChanged r]\<rparr>))"

text \<open>The \<open>try\<close> block of \<open>loadPresetsFromStorage\<close>: \<open>Inl\<close> is the exception it throws.\<close>

definition loadPresetsFromStorage_try ::
  "codec \<Rightarrow> jsstring \<Rightarrow> PromptDjMidi \<Rightarrow> exn + PromptDjMidi" where
  "loadPresetsFromStorage_try J storedPresets s =
     (case JSON_parse_presets J storedPresets of
        None \<Rightarrow> Inl SyntaxError
      | Some ob \<Rightarrow>
          (case Object_keys ob of
             [] \<Rightarrow> Inr (s\<lparr>presets := ob\<rparr>)
           | n # ns \<Rightarrow> Inr (s\<lparr>presets := ob, selectedPresetName := n\<rparr>)))"

definition loadPresetsFromStorage :: "codec \<Rightarrow> PromptDjMidi \<Rightarrow> PromptDjMidi" where
  "loadPresetsFromStorage J s =
     (case localStorage s presets_key of
        None \<Rightarrow> s
      | Some storedPresets \<Rightarrow>
          if storedPresets = [] then s
          else
            (case loadPresetsFromStorage_try J storedPresets s of
               Inr s' \<Rightarrow> s'
             | Inl e \<Rightarrow>
                 s\<lparr>console_errors :=
                      console_errors s @ [''Failed to parse presets from localStorage''],
                   localStorage := (localStorage s)(presets_key := None)\<rparr>))"

text \<open>
  The constructor: the field initialisers, the argument \<open>initialPrompts\<close>, then
  \<open>loadPresetsFromStorage\<close>. The store and \<open>localStorage\<close> are the ones the component
  is created in.
\<close>

definition constructor ::
  "codec \<Rightarrow> (ref \<Rightarrow> Prompt) \<Rightarrow> (ref \<Rightarrow> ref entries) \<Rightarrow> ref \<Rightarrow> (jsstring \<Rightarrow> jsstring option) \<Rightarrow> ref
     \<Rightarrow> PromptDjMidi" where
  "constructor J objs maps nxt storage initialPrompts =
     loadPresetsFromStorage J
       \<lparr>prompt_objs = objs, map_objs = maps, next_ref = nxt, prompts = initialPrompts,
        presets = [], selectedPresetName = [], localStorage = storage, dispatched = [],
        console_errors = [], update_requests = 0\<rparr>"

text \<open>
  The argument \<open>name\<close> is what the dialog \<open>prompt('Enter a name for your preset:')\<close>
  returns: \<open>None\<close> for \<open>null\<close>.
\<close>

definition handleSavePreset :: "codec \<Rightarrow> jsstring option \<Rightarrow> PromptDjMidi \<Rightarrow> PromptDjMidi" where
  "handleSavePreset J name s =
     (case name of
        None \<Rightarrow> s
      | Some n \<Rightarrow>
          if n \<noteq> [] \<and> trim n \<noteq> [] then
            (let trimmedName = trim n;
                 promptsToSave = collection s (prompts s);
                 presets' = spread (obj_set (presets s) trimmedName
                                      (JSON_stringify_entries J promptsToSave))
             in s\<lparr>presets := presets',
                  selectedPresetName := trimmedName,
                  localStorage :=
                    (localStorage s)(presets_key \<mapsto> JSON_stringify_presets J presets')\<rparr>)
          else s)"

text \<open>
  \<open>JSON.parse\<close> builds new objects: one \<open>Prompt\<close> object per pair of the array, at
  the next free references.
\<close>

fun alloc_prompts ::
  "Prompt entries \<Rightarrow> (ref \<Rightarrow> Prompt) \<Rightarrow> ref \<Rightarrow> ref entries \<times> (ref \<Rightarrow> Prompt) \<times> ref" where
  "alloc_prompts [] objs n = ([], objs, n)"
| "alloc_prompts ((k, p) # es) objs n =
     (case alloc_prompts es (objs(n := p)) (Suc n) of
        (rs, objs', n') \<Rightarrow> ((k, n) # rs, objs', n'))"

text \<open>
  The \<open>try\<close> block of \<open>handleLoadPreset\<close>: \<open>Inl\<close> is the exception it throws.
  \<open>JSON.parse\<close> converts its argument to a string first: \<open>undefined\<close>, a function and
  \<open>Object.prototype\<close> give strings that are not JSON. The event's \<open>detail\<close> is a second
  new Map, the copy \<open>new Map(this.prompts)\<close>.
\<close>

definition handleLoadPreset_try :: "codec \<Rightarrow> PromptDjMidi \<Rightarrow> exn + PromptDjMidi" where
  "handleLoadPreset_try J s =
     (case obj_read (presets s) (selectedPresetName s) of
        Undefined \<Rightarrow> Inl SyntaxError
      | Inherited \<Rightarrow> Inl SyntaxError
      | Own presetString \<Rightarrow>
          (case JSON_parse_entries J presetString of
             None \<Rightarrow> Inl SyntaxError
           | Some loadedPromptsArray \<Rightarrow>
               (case alloc_prompts loadedPromptsArray (prompt_objs s) (next_ref s) of
                  (loaded, objs', n') \<Rightarrow>
                    Inr (s\<lparr>prompt_objs := objs',
                           map_objs := (map_objs s)
                             (n' := new_Map loaded, Suc n' := new_Map (new_Map loaded)),
                           next_ref := Suc (Suc n'),
                           prompts := n',
                           update_requests := Suc (update_requests s),
                           dispatched := dispatched s @ [PromptsChanged (Suc n')]\<rparr>))))"

definition handleLoadPreset :: "codec \<Rightarrow> PromptDjMidi \<Rightarrow> PromptDjMidi" where
  "handleLoadPreset J s =
     (if selectedPresetName s = [] \<or> \<not> truthy (obj_read (presets s) (selectedPresetName s))
      then s
      else
        (case handleLoadPreset_try J s of
           Inr s' \<Rightarrow> s'
         | Inl e \<Rightarrow>
             s\<lparr>console_errors := console_errors s @ [''Failed to load preset''],
               dispatched := dispatched s @
                 [ErrorEvent ''Failed to load preset. It might be corrupted.'']\<rparr>))"

text \<open>The argument \<open>confirmed\<close> is the answer of the dialog \<open>confirm(...)\<close>.\<close>

definition handleDeletePreset :: "codec \<Rightarrow> bool \<Rightarrow> PromptDjMidi \<Rightarrow> PromptDjMidi" where
  "handleDeletePreset J confirmed s =
     (if selectedPresetName s = [] \<or> \<not> truthy (obj_read (presets s) (selectedPresetName s))
      then s
      else if confirmed then
        (let presets' = spread (obj_delete (presets s) (selectedPresetName s));
             presetNames = Object_keys presets'
         in s\<lparr>presets := presets',
              selectedPresetName := (case presetNames of [] \<Rightarrow> [] | n # ns \<Rightarrow> n),
              localStorage :=
                (localStorage s)(presets_key \<mapsto> JSON_stringify_presets J presets')\<rparr>)
      else s)"

definition handlePresetSelectionChange :: "jsstring \<Rightarrow> PromptDjMidi \<Rightarrow> PromptDjMidi" where
  "handlePresetSelectionChange v s = s\<lparr>selectedPresetName := v\<rparr>"

subsection \<open>The store's invariant\<close>

text \<open>
  What the platform guarantees of the store and the model has to say: the reference of
  the current Map and the references in it are allocated (below \<open>next_ref\<close>), and a Map
  holds a key once.
\<close>

definition store_ok :: "PromptDjMidi \<Rightarrow> bool" where
  "store_ok s =
     (prompts s < next_ref s \<and>
      distinct (map fst (map_objs s (prompts s))) \<and>
      list_all (\<lambda>(k, a). a < next_ref s) (map_objs s (prompts s)))"

subsection \<open>A page to run the component on\<close>

text \<open>
  Concrete data for the examples: two prompts, the JSON text of their collection, and a
  stored preset object with a preset that holds the empty collection, one whose payload
  is not JSON and one whose payload is the empty string.
\<close>

definition bossa :: Prompt where
  "bossa = \<lparr>promptId = js ''prompt-0'', prompt_text = js ''Bossa Nova'', weight = Num 1,
            cc = 0, color = js ''#9900ff''\<rparr>"

definition chill :: Prompt where
  "chill = \<lparr>promptId = js ''prompt-1'', prompt_text = js ''Chillwave'', weight = Num 0,
            cc = 1, color = js ''#5200ff''\<rparr>"

definition sample_entries :: "Prompt entries" where
  "sample_entries = [(js ''prompt-0'', bossa), (js ''prompt-1'', chill)]"

definition sample_payload :: jsstring where
  \<open>sample_payload =
     js ''[["prompt-0",{"promptId":"prompt-0","text":"Bossa Nova","weight":1,"cc":0,"color":"#9900ff"}],["prompt-1",{"promptId":"prompt-1","text":"Chillwave","weight":0,"cc":1,"color":"#5200ff"}]]''\<close>

definition sample_presets :: "jsstring entries" where
  "sample_presets = [(js ''first'', js ''[]''), (js ''second'', js ''{oops''), (js ''third'', [])]"

definition sample_stored :: jsstring where
  \<open>sample_stored = js ''{"first":"[]","second":"{oops","third":""}''\<close>

text \<open>
  The platform's JSON as far as the examples use it: \<open>sample_codec\<close> reads and writes
  the texts above as \<open>JSON.parse\<close> and \<open>JSON.stringify\<close> do, reads \<open>[]\<close> and \<open>{}\<close>, and
  rejects every other text, among them the empty string and \<open>{oops\<close>. Its answer for a
  value outside this table is a placeholder that no example reads.
\<close>

definition sample_codec :: codec where
  "sample_codec =
     \<lparr>JSON_write_entries = (\<lambda>es. if es = sample_entries then sample_payload else js ''[]''),
      JSON_parse_entries =
        (\<lambda>t. if t = sample_payload then Some sample_entries
             else if t = js ''[]'' then Some [] else None),
      JSON_stringify_presets =
        (\<lambda>ob. if ob = sample_presets then sample_stored else js ''{}''),
      JSON_parse_presets =
        (\<lambda>t. if t = sample_stored then Some sample_presets
             else if t = js ''{}'' then Some [] else None)\<rparr>"

text \<open>
  The component created with the two prompts, in a Map at the reference 2, on a page
  whose \<open>localStorage\<close> holds \<open>stored\<close> under the presets' key (\<open>None\<close>: no item).
\<close>

definition sample_page :: "jsstring option \<Rightarrow> PromptDjMidi" where
  "sample_page stored =
     constructor sample_codec
       (\<lambda>r. if r = 1 then chill else bossa)
       (\<lambda>r. if r = 2 then [(js ''prompt-0'', 0), (js ''prompt-1'', 1)] else [])
       3
       (\<lambda>k. if k = presets_key then stored else None)
       2"

text \<open>An edit of the second prompt's weight, and the page after a save and that edit.\<close>

definition sample_edit :: Prompt where
  "sample_edit = chill\<lparr>weight := Num 0.5\<rparr>"

definition sample_later :: PromptDjMidi where
  "sample_later =
     handlePromptChanged
       (handleSavePreset sample_codec (Some (js '' warm '')) (sample_page None)) sample_edit"

text \<open>The page after an edit that sets the second prompt's weight to the negative zero.\<close>

definition sample_negative_zero :: PromptDjMidi where
  "sample_negative_zero = handlePromptChanged (sample_page None) (chill\<lparr>weight := NegZero\<rparr>)"

section \<open>Properties of the knob\<close>

subsection \<open>The drag\<close>

lemma deliver_dragStart:
  "dragStartPos (deliver k g) = dragStartPos k \<and> dragStartValue (deliver k g) = dragStartValue k"
  by (cases g) (simp_all add: handlePointerMove_def handleWheel_def Let_def)

lemma foldl_deliver_dragStart:
  "dragStartPos (foldl deliver k gs) = dragStartPos k \<and>
   dragStartValue (foldl deliver k gs) = dragStartValue k"
  by (induction gs arbitrary: k) (simp_all add: deliver_dragStart)

lemma handlePointerMove_value:
  "knob_value (handlePointerMove k y) =
     max 0 (min 2 (dragStartValue k + (dragStartPos k - y) * 0.01))"
  by (simp add: handlePointerMove_def Let_def)

text \<open>
  C6. After \<open>handlePointerDown\<close> at the coordinate \<open>p0\<close> on a knob whose value is
  \<open>v0\<close>, and after any moves and wheel events in between, a \<open>handlePointerMove\<close> at
  \<open>p\<close> sets the value to \<open>max 0 (min 2 (v0 + (p0 - p) * 0.01))\<close> and dispatches it. The
  value lies in \<open>[0, 2]\<close>; a pointer further up (a smaller \<open>clientY\<close>) never gives a
  smaller value; and from 0.3, the drag from \<open>y = 100\<close> to \<open>y = 50\<close> gives 0.8.
\<close>

theorem drag_sets_clamped_value:
  "knob_value (handlePointerMove (foldl deliver (handlePointerDown k p0) gs) p) =
     max 0 (min 2 (knob_value k + (p0 - p) * 0.01)) \<and>
   0 \<le> knob_value (handlePointerMove (foldl deliver (handlePointerDown k p0) gs) p) \<and>
   knob_value (handlePointerMove (foldl deliver (handlePointerDown k p0) gs) p) \<le> 2 \<and>
   (p \<le> q \<longrightarrow>
      knob_value (handlePointerMove (foldl deliver (handlePointerDown k p0) gs) q) \<le>
      knob_value (handlePointerMove (foldl deliver (handlePointerDown k p0) gs) p)) \<and>
   last (input_events (handlePointerMove (foldl deliver (handlePointerDown k p0) gs) p)) =
     knob_value (handlePointerMove (foldl deliver (handlePointerDown k p0) gs) p) \<and>
   knob_value (handlePointerMove (handlePointerDown (k\<lparr>knob_value := 0.3\<rparr>) 100) 50) = 0.8"
proof -
  let ?d = "foldl deliver (handlePointerDown k p0) gs"
  have pos: "dragStartPos ?d = p0"
    by (simp add: foldl_deliver_dragStart handlePointerDown_def)
  have val: "dragStartValue ?d = knob_value k"
    by (simp add: foldl_deliver_dragStart handlePointerDown_def)
  have at: "knob_value (handlePointerMove ?d y) = max 0 (min 2 (knob_value k + (p0 - y) * 0.01))"
    for y
    by (simp add: handlePointerMove_value pos val)
  have mono: "p \<le> q \<longrightarrow> knob_value (handlePointerMove ?d q) \<le> knob_value (handlePointerMove ?d p)"
  proof
    assume "p \<le> q"
    then have "knob_value k + (p0 - q) * 0.01 \<le> knob_value k + (p0 - p) * 0.01"
      by simp
    then have "max 0 (min 2 (knob_value k + (p0 - q) * 0.01)) \<le>
               max 0 (min 2 (knob_value k + (p0 - p) * 0.01))"
      by (intro max.mono min.mono order_refl)
    then show "knob_value (handlePointerMove ?d q) \<le> knob_value (handlePointerMove ?d p)"
      by (simp only: at)
  qed
  have ev: "last (input_events (handlePointerMove ?d p)) = knob_value (handlePointerMove ?d p)"
    by (simp add: handlePointerMove_def Let_def)
  have ex: "knob_value (handlePointerMove (handlePointerDown (k\<lparr>knob_value := 0.3\<rparr>) 100) 50) = 0.8"
    by (simp add: handlePointerMove_def handlePointerDown_def Let_def)
  show ?thesis
    using at [of p] mono ev ex by simp
qed

theorem drag_sets_clamped_value_witness:
  "(50 :: real) \<le> 70 \<and>
   knob_value (handlePointerMove
     (foldl deliver (handlePointerDown (new_WeightKnob\<lparr>knob_value := 0.3\<rparr>) 100)
        [PointerMove 80, Wheel 120]) 50) = 0.8 \<and>
   knob_value (handlePointerMove
     (foldl deliver (handlePointerDown (new_WeightKnob\<lparr>knob_value := 0.3\<rparr>) 100)
        [PointerMove 80, Wheel 120]) 70) \<le>
   knob_value (handlePointerMove
     (foldl deliver (handlePointerDown (new_WeightKnob\<lparr>knob_value := 0.3\<rparr>) 100)
        [PointerMove 80, Wheel 120]) 50)"
  using drag_sets_clamped_value
    [of "new_WeightKnob\<lparr>knob_value := 0.3\<rparr>" 100 "[PointerMove 80, Wheel 120]" 50 70]
  by simp

subsection \<open>The wheel\<close>

text \<open>
  C3, as the claim states it, fails: on a knob whose value is 0, the wheel event with
  \<open>deltaY = 120\<close> does not set the value to 0.3.
\<close>

theorem wheel_plus_120_counterexample:
  "knob_value (handleWheel (new_WeightKnob\<lparr>knob_value := 0\<rparr>) 120) \<noteq> 0.3"
  by (simp add: handleWheel_def new_WeightKnob_def Let_def)

text \<open>
  C3, amended. A wheel event sets the value to
  \<open>max 0 (min 2 (value + deltaY * -0.0025))\<close>, which is
  \<open>max 0 (min 2 (value - deltaY * 0.0025))\<close>, and dispatches it. From the value 0, the
  event with \<open>deltaY = 120\<close> leaves the value at 0 (the sum is -0.3, below the range),
  and the event with \<open>deltaY = -120\<close> sets it to 0.3.
\<close>

theorem wheel_sets_clamped_value:
  "knob_value (handleWheel k d) = max 0 (min 2 (knob_value k - d * 0.0025)) \<and>
   input_events (handleWheel k d) = input_events k @ [knob_value (handleWheel k d)] \<and>
   knob_value (handleWheel (k\<lparr>knob_value := 0\<rparr>) 120) = 0 \<and>
   knob_value (handleWheel (k\<lparr>knob_value := 0\<rparr>) (- 120)) = 0.3"
  by (simp add: handleWheel_def Let_def)

subsection \<open>The halo\<close>

text \<open>
  C9. The scale of the halo that \<open>render\<close> computes is
  \<open>MIN_HALO_SCALE + (value / 2) * (MAX_HALO_SCALE - MIN_HALO_SCALE) +
  audioLevel * HALO_LEVEL_MODIFIER\<close> with the constants 1, 2 and 1, for every value (so
  for every value in \<open>[0, 2]\<close>) and every level. Supplying a level stores it, leaves the
  value as it is and dispatches no \<open>input\<close> event.
\<close>

theorem halo_scale_interpolates:
  "render_scale k =
     MIN_HALO_SCALE + (knob_value k / 2) * (MAX_HALO_SCALE - MIN_HALO_SCALE) +
     audioLevel k * HALO_LEVEL_MODIFIER \<and>
   MIN_HALO_SCALE = 1 \<and> MAX_HALO_SCALE = 2 \<and> HALO_LEVEL_MODIFIER = 1 \<and>
   render_scale (k\<lparr>knob_value := 0\<rparr>) = MIN_HALO_SCALE + audioLevel k \<and>
   render_scale (k\<lparr>knob_value := 2\<rparr>) = MAX_HALO_SCALE + audioLevel k \<and>
   audioLevel (set_audioLevel k level) = level \<and>
   knob_value (set_audioLevel k level) = knob_value k \<and>
   input_events (set_audioLevel k level) = input_events k \<and>
   render_scale (set_audioLevel k level) = 1 + knob_value k / 2 + level"
  by (simp add: render_scale_def set_audioLevel_def MIN_HALO_SCALE_def MAX_HALO_SCALE_def
      HALO_LEVEL_MODIFIER_def Let_def)

section \<open>Properties of the component\<close>

subsection \<open>Strings\<close>

lemma js_eq_iff: "js a = js b \<longleftrightarrow> a = b"
proof -
  have "inj (of_char :: char \<Rightarrow> nat)"
    by (rule inj_of_char)
  then show ?thesis
    by (simp add: js_def)
qed

lemma js_Nil_iff: "js a = [] \<longleftrightarrow> a = []"
  by (simp add: js_def)

lemma js_neq_Nil: "[] = js a \<longleftrightarrow> a = []"
  by (auto simp: js_def)

subsection \<open>Maps\<close>

lemma Map_set_fresh: "k \<notin> fst ` set m \<Longrightarrow> Map_set m k v = m @ [(k, v)]"
  by (induction m) auto

lemma Map_set_same: "map_of m k = Some a \<Longrightarrow> Map_set m k a = m"
  by (induction m) (auto split: if_splits)

lemma foldl_Map_set_distinct:
  "distinct (map fst es) \<Longrightarrow> fst ` set acc \<inter> fst ` set es = {} \<Longrightarrow>
   foldl (\<lambda>m (k, v). Map_set m k v) acc es = acc @ es"
proof (induction es arbitrary: acc)
  case Nil
  then show ?case by simp
next
  case (Cons e es)
  obtain k v where e: "e = (k, v)" by (cases e)
  from Cons.prems have fresh: "k \<notin> fst ` set acc" by (auto simp: e)
  have "foldl (\<lambda>m (k, v). Map_set m k v) (acc @ [(k, v)]) es = (acc @ [(k, v)]) @ es"
    using Cons.prems by (intro Cons.IH) (auto simp: e)
  then show ?case by (simp add: e Map_set_fresh [OF fresh])
qed

text \<open>A list of entries with distinct keys is the Map built from it.\<close>

lemma new_Map_distinct: "distinct (map fst es) \<Longrightarrow> new_Map es = es"
  using foldl_Map_set_distinct [of es "[]"] by (simp add: new_Map_def)

lemma map_fst_Map_set:
  "map fst (Map_set m k v) = (if k \<in> fst ` set m then map fst m else map fst m @ [k])"
  by (induction m) (force+)

lemma distinct_Map_set: "distinct (map fst m) \<Longrightarrow> distinct (map fst (Map_set m k v))"
  by (induction m) (auto simp: map_fst_Map_set image_iff)

lemma distinct_foldl_Map_set:
  "distinct (map fst acc) \<Longrightarrow> distinct (map fst (foldl (\<lambda>m (k, v). Map_set m k v) acc es))"
  by (induction es arbitrary: acc) (auto simp: distinct_Map_set)

lemma distinct_new_Map: "distinct (map fst (new_Map es))"
  using distinct_foldl_Map_set [of "[]" es] by (simp add: new_Map_def)

text \<open>Building a Map commutes with reading the values through the store.\<close>

lemma Map_set_map_values:
  "Map_set (map (\<lambda>(k, a). (k, f a)) m) k (f v) = map (\<lambda>(k, a). (k, f a)) (Map_set m k v)"
  by (induction m) auto

lemma foldl_Map_set_map_values:
  "foldl (\<lambda>m (k, v). Map_set m k v) (map (\<lambda>(k, a). (k, f a)) acc)
     (map (\<lambda>(k, a). (k, f a)) es) =
   map (\<lambda>(k, a). (k, f a)) (foldl (\<lambda>m (k, v). Map_set m k v) acc es)"
  by (induction es arbitrary: acc) (auto simp: Map_set_map_values)

lemma new_Map_map_values:
  "new_Map (map (\<lambda>(k, a). (k, f a)) es) = map (\<lambda>(k, a). (k, f a)) (new_Map es)"
  using foldl_Map_set_map_values [of f "[]" es] by (simp add: new_Map_def)

lemma set_Map_set: "snd ` set (Map_set m k v) \<subseteq> insert v (snd ` set m)"
  by (induction m) (fastforce split: if_splits)+

lemma set_foldl_Map_set:
  "snd ` set (foldl (\<lambda>m (k, v). Map_set m k v) acc es) \<subseteq> snd ` set acc \<union> snd ` set es"
proof (induction es arbitrary: acc)
  case Nil
  then show ?case by simp
next
  case (Cons e es)
  obtain k v where e: "e = (k, v)" by (cases e)
  from Cons.IH [of "Map_set acc k v"] set_Map_set [of acc k v]
  show ?case by (auto simp: e)
qed

lemma set_new_Map: "snd ` set (new_Map es) \<subseteq> snd ` set es"
  using set_foldl_Map_set [of "[]" es] by (simp add: new_Map_def)

subsection \<open>Objects\<close>

lemma map_of_obj_insert: "map_of ob k = None \<Longrightarrow> map_of (obj_insert ob k v) k = Some v"
  by (induction ob) (auto split: option.splits if_splits)

lemma map_of_obj_replace:
  "map_of ob k = Some x \<Longrightarrow>
   map_of (map (\<lambda>(k', v'). if k' = k then (k', v) else (k', v')) ob) k = Some v"
  by (induction ob) (auto split: if_splits)

text \<open>A property that was assigned is read back.\<close>

lemma obj_get_obj_set: "k \<noteq> js ''__proto__'' \<Longrightarrow> obj_get (obj_set ob k v) k = Some v"
  by (cases "map_of ob k")
    (simp_all add: obj_get_def obj_set_def map_of_obj_insert map_of_obj_replace)

lemma obj_read_own: "obj_get ob k = Some v \<Longrightarrow> obj_read ob k = Own v"
  by (simp add: obj_read_def)

lemma obj_get_obj_delete:
  "obj_get (obj_delete ob k) k' = (if k' = k then None else obj_get ob k')"
  by (induction ob) (auto simp: obj_get_def obj_delete_def)

lemma Object_keys_obj_delete:
  "Object_keys (obj_delete ob k) = filter (\<lambda>k'. k' \<noteq> k) (Object_keys ob)"
  by (induction ob) (auto simp: Object_keys_def obj_delete_def)

subsection \<open>Allocation\<close>

lemma alloc_prompts_result:
  "alloc_prompts es objs n = (rs, objs', n') \<Longrightarrow>
   map (\<lambda>(k, a). (k, objs' a)) rs = es \<and> n' = n + length es \<and>
   (\<forall>a < n. objs' a = objs a) \<and> list_all (\<lambda>(k, a). n \<le> a \<and> a < n') rs"
proof (induction es arbitrary: objs n rs objs' n')
  case Nil
  then show ?case by simp
next
  case (Cons e es)
  obtain k p where e: "e = (k, p)" by (cases e)
  obtain rs1 where rs1: "alloc_prompts es (objs(n := p)) (Suc n) = (rs1, objs', n')"
    "rs = (k, n) # rs1"
    using Cons.prems by (auto simp: e split: prod.splits)
  note IH = Cons.IH [OF rs1(1)]
  from IH have "objs' n = p" by simp
  moreover from IH have "\<forall>a < n. objs' a = objs a" by simp
  moreover from IH have "list_all (\<lambda>(k, a). n \<le> a \<and> a < n') rs1"
    by (auto simp: list_all_iff)
  moreover from IH have "n < n'" by simp
  ultimately show ?case using IH by (simp add: e rs1(2))
qed

subsection \<open>The handlers, case by case\<close>

lemma handlePromptChanged_known:
  assumes "Map_get (map_objs s (prompts s)) (promptId e) = Some a"
  shows "handlePromptChanged s e =
     s\<lparr>prompt_objs := (prompt_objs s)
          (a := (prompt_objs s a)\<lparr>prompt_text := prompt_text e, weight := weight e, cc := cc e\<rparr>),
       map_objs := (map_objs s)
          (next_ref s := Map_set (new_Map (map_objs s (prompts s))) (promptId e) a),
       next_ref := Suc (next_ref s),
       prompts := next_ref s,
       update_requests := Suc (update_requests s),
       dispatched := dispatched s @ [PromptsChanged (next_ref s)]\<rparr>"
  using assms by (simp add: handlePromptChanged_def Let_def)

lemma handleSavePreset_named:
  assumes "trim n \<noteq> []"
  shows "presets (handleSavePreset J (Some n) s) =
           obj_set (presets s) (trim n) (JSON_stringify_entries J (collection s (prompts s))) \<and>
         selectedPresetName (handleSavePreset J (Some n) s) = trim n \<and>
         localStorage (handleSavePreset J (Some n) s) presets_key =
           Some (JSON_stringify_presets J (presets (handleSavePreset J (Some n) s)))"
proof -
  from assms have "n \<noteq> []" by (auto simp: trim_def)
  with assms show ?thesis
    by (simp add: handleSavePreset_def Let_def spread_def)
qed

text \<open>
  A load whose payload parses: the current collection and the collection of the event
  are the Map built from the parsed array, in new objects.
\<close>

lemma handleLoadPreset_parsed:
  assumes sel: "selectedPresetName s \<noteq> []"
    and get: "obj_get (presets s) (selectedPresetName s) = Some payload"
    and ne: "payload \<noteq> []"
    and parse: "JSON_parse_entries J payload = Some arr"
  shows "collection (handleLoadPreset J s) (prompts (handleLoadPreset J s)) = new_Map arr \<and>
         dispatched (handleLoadPreset J s) =
           dispatched s @ [PromptsChanged (Suc (prompts (handleLoadPreset J s)))] \<and>
         collection (handleLoadPreset J s) (Suc (prompts (handleLoadPreset J s))) = new_Map arr \<and>
         prompts (handleLoadPreset J s) = next_ref s + length arr"
proof -
  obtain rs objs' n' where al: "alloc_prompts arr (prompt_objs s) (next_ref s) = (rs, objs', n')"
    by (cases "alloc_prompts arr (prompt_objs s) (next_ref s)")
  from alloc_prompts_result [OF al]
  have vals: "map (\<lambda>(k, a). (k, objs' a)) rs = arr" and n': "n' = next_ref s + length arr"
    by simp_all
  have run: "handleLoadPreset J s =
      s\<lparr>prompt_objs := objs',
        map_objs := (map_objs s)(n' := new_Map rs, Suc n' := new_Map (new_Map rs)),
        next_ref := Suc (Suc n'),
        prompts := n',
        update_requests := Suc (update_requests s),
        dispatched := dispatched s @ [PromptsChanged (Suc n')]\<rparr>"
    using sel ne parse al
    by (simp add: handleLoadPreset_def handleLoadPreset_try_def truthy_def obj_read_own [OF get])
  have c1: "map (\<lambda>(k, a). (k, objs' a)) (new_Map rs) = new_Map arr"
    using new_Map_map_values [of objs' rs] vals by simp
  have c2: "new_Map (new_Map rs) = new_Map rs"
    by (rule new_Map_distinct) (rule distinct_new_Map)
  show ?thesis
    by (simp add: run collection_def c1 c2 n')
qed

text \<open>The definitions the examples are evaluated with.\<close>

lemmas sample_defs = sample_page_def constructor_def loadPresetsFromStorage_def
  loadPresetsFromStorage_try_def presets_key_def
  sample_codec_def sample_stored_def sample_presets_def sample_payload_def sample_entries_def
  bossa_def chill_def Object_keys_def js_eq_iff js_Nil_iff js_neq_Nil

subsection \<open>The invariant is kept\<close>

lemma store_ok_handlePromptChanged: "store_ok s \<Longrightarrow> store_ok (handlePromptChanged s e)"
proof (cases "Map_get (map_objs s (prompts s)) (promptId e)")
  case None
  assume "store_ok s"
  with None show ?thesis
    by (simp add: handlePromptChanged_def store_ok_def)
next
  case (Some a)
  assume ok: "store_ok s"
  then have dist: "distinct (map fst (map_objs s (prompts s)))"
    by (simp add: store_ok_def)
  have same: "Map_set (new_Map (map_objs s (prompts s))) (promptId e) a = map_objs s (prompts s)"
    using Some by (simp add: new_Map_distinct [OF dist] Map_set_same Map_get_def)
  from ok show ?thesis
    by (auto simp: handlePromptChanged_known [OF Some] same store_ok_def list_all_iff)
qed

lemma store_ok_handleSavePreset: "store_ok s \<Longrightarrow> store_ok (handleSavePreset J name s)"
  by (simp add: handleSavePreset_def store_ok_def Let_def split: option.splits)

lemma store_ok_handleDeletePreset: "store_ok s \<Longrightarrow> store_ok (handleDeletePreset J c s)"
  by (simp add: handleDeletePreset_def store_ok_def Let_def)

lemma store_ok_loadPresetsFromStorage: "store_ok s \<Longrightarrow> store_ok (loadPresetsFromStorage J s)"
  by (auto simp: loadPresetsFromStorage_def loadPresetsFromStorage_try_def store_ok_def
      split: option.splits list.splits)

lemma store_ok_constructor:
  assumes "ip < nxt" and "distinct (map fst (maps ip))"
    and "list_all (\<lambda>(k, a). a < nxt) (maps ip)"
  shows "store_ok (constructor J objs maps nxt storage ip)"
  unfolding constructor_def
  by (rule store_ok_loadPresetsFromStorage) (simp add: store_ok_def assms)

lemma store_ok_handleLoadPreset:
  assumes ok: "store_ok s"
  shows "store_ok (handleLoadPreset J s)"
proof (cases "handleLoadPreset_try J s")
  case (Inl x)
  with ok show ?thesis
    by (simp add: handleLoadPreset_def store_ok_def)
next
  case (Inr s')
  then obtain arr rs objs' n' where
    al: "alloc_prompts arr (prompt_objs s) (next_ref s) = (rs, objs', n')" and
    s': "s' = s\<lparr>prompt_objs := objs',
             map_objs := (map_objs s)(n' := new_Map rs, Suc n' := new_Map (new_Map rs)),
             next_ref := Suc (Suc n'),
             prompts := n',
             update_requests := Suc (update_requests s),
             dispatched := dispatched s @ [PromptsChanged (Suc n')]\<rparr>"
    by (auto simp: handleLoadPreset_try_def split: property.splits option.splits prod.splits)
  from alloc_prompts_result [OF al] have "\<forall>a \<in> snd ` set rs. a < n'"
    by (auto simp: list_all_iff)
  with set_new_Map [of rs] have "\<forall>a \<in> snd ` set (new_Map rs). a < Suc (Suc n')"
    by fastforce
  then have "store_ok s'"
    by (auto simp: s' store_ok_def distinct_new_Map list_all_iff)
  with ok Inr show ?thesis
    by (simp add: handleLoadPreset_def)
qed

subsection \<open>Edits\<close>




text \<open>
  C5. An edit whose identifier is not a key of the current Map changes nothing but the
  console: \<open>this.prompts\<close> is the same reference, the store is the same, so the
  collection read through it is the same, and no event is dispatched and no update
  requested.
\<close>

theorem unknown_identifier_edit_ignored:
  assumes "Map_get (map_objs s (prompts s)) (promptId e) = None"
  shows "handlePromptChanged s e =
           s\<lparr>console_errors := console_errors s @ [''prompt not found'']\<rparr> \<and>
         prompts (handlePromptChanged s e) = prompts s \<and>
         map_objs (handlePromptChanged s e) = map_objs s \<and>
         prompt_objs (handlePromptChanged s e) = prompt_objs s \<and>
         collection (handlePromptChanged s e) (prompts s) = collection s (prompts s) \<and>
         dispatched (handlePromptChanged s e) = dispatched s \<and>
         update_requests (handlePromptChanged s e) = update_requests s"
  using assms by (simp add: handlePromptChanged_def collection_def)

theorem unknown_identifier_edit_ignored_witness:
  "Map_get (map_objs (sample_page None) (prompts (sample_page None)))
     (promptId (sample_edit\<lparr>promptId := js ''prompt-9''\<rparr>)) = None \<and>
   dispatched (handlePromptChanged (sample_page None) (sample_edit\<lparr>promptId := js ''prompt-9''\<rparr>))
     = [] \<and>
   prompts (handlePromptChanged (sample_page None) (sample_edit\<lparr>promptId := js ''prompt-9''\<rparr>))
     = 2 \<and>
   collection (handlePromptChanged (sample_page None) (sample_edit\<lparr>promptId := js ''prompt-9''\<rparr>)) 2
     = sample_entries"
proof -
  let ?h = "handlePromptChanged (sample_page None) (sample_edit\<lparr>promptId := js ''prompt-9''\<rparr>)"
  have unknown: "Map_get (map_objs (sample_page None) (prompts (sample_page None)))
     (promptId (sample_edit\<lparr>promptId := js ''prompt-9''\<rparr>)) = None"
    by (simp add: sample_defs Map_get_def)
  have d: "dispatched (sample_page None) = []" and p: "prompts (sample_page None) = 2"
    and c: "collection (sample_page None) 2 = sample_entries"
    by (simp_all add: sample_defs collection_def)
  from unknown_identifier_edit_ignored [OF unknown]
  have "dispatched ?h = dispatched (sample_page None)" "prompts ?h = prompts (sample_page None)"
    "collection ?h (prompts (sample_page None)) =
       collection (sample_page None) (prompts (sample_page None))"
    by blast+
  with unknown d p c show ?thesis by simp
qed

subsection \<open>Saving and loading a preset\<close>

lemma map_fst_JSON_image: "map fst (JSON_image es) = map fst es"
  by (induction es) (auto simp: JSON_image_def)

lemma JSON_number_exact: "JSON_exact w \<Longrightarrow> JSON_number w = w"
  by (cases w) simp_all

lemma JSON_image_exact:
  "list_all (\<lambda>(k, p). JSON_exact (weight p)) es \<Longrightarrow> JSON_image es = es"
  by (induction es) (auto simp: JSON_image_def JSON_number_exact)

text \<open>
  A preset saved under a name that is not blank and is not \<open>__proto__\<close>, in a state whose
  JSON text the platform reads back, then loaded in a state \<open>u\<close> where the presets and
  the selection are those the save left: the collection is the JSON image of the one
  that was saved.
\<close>

lemma load_after_save:
  assumes name: "trim n \<noteq> []"
    and proto: "trim n \<noteq> js ''__proto__''"
    and ok: "store_ok s"
    and nonempty: "JSON_write_entries J (JSON_image (collection s (prompts s))) \<noteq> []"
    and codec: "JSON_parse_entries J (JSON_write_entries J (JSON_image (collection s (prompts s)))) =
                  Some (JSON_image (collection s (prompts s)))"
    and u: "presets u = presets (handleSavePreset J (Some n) s)"
           "selectedPresetName u = selectedPresetName (handleSavePreset J (Some n) s)"
  shows "collection (handleLoadPreset J u) (prompts (handleLoadPreset J u)) =
           JSON_image (collection s (prompts s)) \<and>
         dispatched (handleLoadPreset J u) =
           dispatched u @ [PromptsChanged (Suc (prompts (handleLoadPreset J u)))] \<and>
         collection (handleLoadPreset J u) (Suc (prompts (handleLoadPreset J u))) =
           JSON_image (collection s (prompts s))"
proof -
  let ?d = "JSON_image (collection s (prompts s))"
  note saved = handleSavePreset_named [OF name, of J s]
  have dist: "distinct (map fst ?d)"
    using ok
    by (simp add: map_fst_JSON_image store_ok_def collection_def comp_def case_prod_unfold)
  have same: "new_Map ?d = ?d"
    by (rule new_Map_distinct [OF dist])
  have sel: "selectedPresetName u \<noteq> []"
    using u saved name by simp
  have get: "obj_get (presets u) (selectedPresetName u) = Some (JSON_write_entries J ?d)"
    using u saved proto by (simp add: obj_get_obj_set JSON_stringify_entries_def)
  show ?thesis
    using handleLoadPreset_parsed [OF sel get nonempty codec] unfolding same by blast
qed

text \<open>
  C2, as the claim states it, fails: a weight that is the negative zero comes back as the
  positive zero. On the sample page after an edit that sets the second prompt's weight
  to \<open>-0\<close>, saving the collection and loading the preset gives a collection that is not
  the saved one: the JSON text is the text of the sample entries, where that weight is 0.
\<close>

theorem negative_zero_weight_counterexample:
  "collection sample_negative_zero (prompts sample_negative_zero) =
     [(js ''prompt-0'', bossa), (js ''prompt-1'', chill\<lparr>weight := NegZero\<rparr>)] \<and>
   collection
     (handleLoadPreset sample_codec
        (handleSavePreset sample_codec (Some (js ''warm'')) sample_negative_zero))
     (prompts (handleLoadPreset sample_codec
        (handleSavePreset sample_codec (Some (js ''warm'')) sample_negative_zero))) =
     [(js ''prompt-0'', bossa), (js ''prompt-1'', chill\<lparr>weight := Num 0\<rparr>)] \<and>
   collection
     (handleLoadPreset sample_codec
        (handleSavePreset sample_codec (Some (js ''warm'')) sample_negative_zero))
     (prompts (handleLoadPreset sample_codec
        (handleSavePreset sample_codec (Some (js ''warm'')) sample_negative_zero))) \<noteq>
   collection sample_negative_zero (prompts sample_negative_zero)"
proof -
  let ?s = "sample_negative_zero"
  let ?s1 = "handleSavePreset sample_codec (Some (js ''warm'')) ?s"
  have known: "Map_get (map_objs (sample_page None) (prompts (sample_page None)))
      (promptId (chill\<lparr>weight := NegZero\<rparr>)) = Some 1"
    by (simp add: sample_defs Map_get_def)
  have ok: "store_ok ?s"
    unfolding sample_negative_zero_def
    by (rule store_ok_handlePromptChanged) (simp add: sample_defs store_ok_def)
  have c: "collection ?s (prompts ?s) =
      [(js ''prompt-0'', bossa), (js ''prompt-1'', chill\<lparr>weight := NegZero\<rparr>)]"
    unfolding sample_negative_zero_def handlePromptChanged_known [OF known]
    by (simp add: collection_def) (simp add: sample_defs new_Map_def)
  have image: "JSON_image (collection ?s (prompts ?s)) = sample_entries"
    by (simp add: c JSON_image_def sample_entries_def bossa_def chill_def)
  have tr: "trim (js ''warm'') = js ''warm''"
    by (simp add: trim_def is_white_space_def js_def)
  have name: "trim (js ''warm'') \<noteq> []" and proto: "trim (js ''warm'') \<noteq> js ''__proto__''"
    by (simp_all add: tr js_eq_iff js_Nil_iff)
  have nonempty: "JSON_write_entries sample_codec (JSON_image (collection ?s (prompts ?s))) \<noteq> []"
    by (simp add: image sample_codec_def sample_payload_def js_Nil_iff)
  have codec: "JSON_parse_entries sample_codec
      (JSON_write_entries sample_codec (JSON_image (collection ?s (prompts ?s)))) =
      Some (JSON_image (collection ?s (prompts ?s)))"
    by (simp add: image sample_codec_def)
  from load_after_save [OF name proto ok nonempty codec refl refl]
  have "collection (handleLoadPreset sample_codec ?s1) (prompts (handleLoadPreset sample_codec ?s1))
      = sample_entries"
    by (simp add: image)
  with c show ?thesis
    by (simp add: sample_entries_def chill_def)
qed

text \<open>
  C2, amended. Let a preset be saved under a name that is not blank and is not
  \<open>__proto__\<close>, in a state \<open>s\<close>, and let the platform read the JSON text of the collection
  back (the text is not empty and \<open>JSON.parse\<close> returns the JSON value it was written
  from: the two hypotheses on \<open>J\<close>). Loading the preset, at once or in any later state
  \<open>t\<close> where the presets and the selection are the ones the save left (the prompts may
  have been edited since), makes the current collection the JSON image of the saved one:
  the same identifiers in the same order, each with the same text, channel and colour,
  and with the weight \<open>JSON_number\<close> gives (a finite weight other than \<open>-0\<close> as it
  was, \<open>-0\<close> as 0, NaN and the infinities as \<open>null\<close>). The event dispatched carries a Map
  with that collection too. So when every weight is a finite number other than \<open>-0\<close>,
  the loaded collection is the saved one.
\<close>

theorem save_then_load_roundtrip:
  assumes name: "trim n \<noteq> []"
    and proto: "trim n \<noteq> js ''__proto__''"
    and ok: "store_ok s"
    and nonempty: "JSON_write_entries J (JSON_image (collection s (prompts s))) \<noteq> []"
    and codec: "JSON_parse_entries J (JSON_write_entries J (JSON_image (collection s (prompts s)))) =
                  Some (JSON_image (collection s (prompts s)))"
    and later: "presets t = presets (handleSavePreset J (Some n) s)"
               "selectedPresetName t = selectedPresetName (handleSavePreset J (Some n) s)"
  shows "collection (handleLoadPreset J (handleSavePreset J (Some n) s))
           (prompts (handleLoadPreset J (handleSavePreset J (Some n) s))) =
           JSON_image (collection s (prompts s)) \<and>
         collection (handleLoadPreset J t) (prompts (handleLoadPreset J t)) =
           JSON_image (collection s (prompts s)) \<and>
         (\<exists>r. dispatched (handleLoadPreset J t) = dispatched t @ [PromptsChanged r] \<and>
              collection (handleLoadPreset J t) r = JSON_image (collection s (prompts s))) \<and>
         (list_all (\<lambda>(k, p). JSON_exact (weight p)) (collection s (prompts s)) \<longrightarrow>
            collection (handleLoadPreset J (handleSavePreset J (Some n) s))
              (prompts (handleLoadPreset J (handleSavePreset J (Some n) s))) =
              collection s (prompts s) \<and>
            collection (handleLoadPreset J t) (prompts (handleLoadPreset J t)) =
              collection s (prompts s) \<and>
            (\<exists>r. dispatched (handleLoadPreset J t) = dispatched t @ [PromptsChanged r] \<and>
                 collection (handleLoadPreset J t) r = collection s (prompts s)))"
proof -
  note at_once = load_after_save [OF name proto ok nonempty codec refl refl]
  note afterwards = load_after_save [OF name proto ok nonempty codec later]
  have "JSON_image (collection s (prompts s)) = collection s (prompts s)"
    if "list_all (\<lambda>(k, p). JSON_exact (weight p)) (collection s (prompts s))"
    using that by (rule JSON_image_exact)
  with at_once afterwards show ?thesis
    by (metis (no_types, lifting))
qed

theorem save_then_load_roundtrip_witness:
  "trim (js '' warm '') = js ''warm'' \<and>
   store_ok (sample_page None) \<and>
   list_all (\<lambda>(k, p). JSON_exact (weight p))
     (collection (sample_page None) (prompts (sample_page None))) \<and>
   JSON_stringify_entries sample_codec (collection (sample_page None) (prompts (sample_page None)))
     = sample_payload \<and>
   JSON_parse_entries sample_codec sample_payload = Some sample_entries \<and>
   collection sample_later (prompts sample_later) =
     [(js ''prompt-0'', bossa), (js ''prompt-1'', sample_edit)] \<and>
   collection (handleLoadPreset sample_codec sample_later)
     (prompts (handleLoadPreset sample_codec sample_later)) = sample_entries"
proof -
  let ?s = "sample_page None"
  have tr: "trim (js '' warm '') = js ''warm''"
    by (simp add: trim_def is_white_space_def js_def)
  have name: "trim (js '' warm '') \<noteq> []"
    and proto: "trim (js '' warm '') \<noteq> js ''__proto__''"
    by (simp_all add: tr js_eq_iff js_Nil_iff)
  have ok: "store_ok ?s"
    by (simp add: sample_defs store_ok_def)
  have c: "collection ?s (prompts ?s) = sample_entries"
    by (simp add: sample_defs collection_def)
  have exact: "list_all (\<lambda>(k, p). JSON_exact (weight p)) (collection ?s (prompts ?s))"
    by (simp add: c sample_entries_def bossa_def chill_def)
  have image: "JSON_image (collection ?s (prompts ?s)) = sample_entries"
    using JSON_image_exact [OF exact] by (simp add: c)
  have str: "JSON_stringify_entries sample_codec (collection ?s (prompts ?s)) = sample_payload"
    by (simp add: JSON_stringify_entries_def image sample_codec_def)
  have prs: "JSON_parse_entries sample_codec sample_payload = Some sample_entries"
    by (simp add: sample_codec_def)
  have nonempty: "JSON_write_entries sample_codec (JSON_image (collection ?s (prompts ?s))) \<noteq> []"
    by (simp add: image sample_codec_def sample_payload_def js_Nil_iff)
  have codec: "JSON_parse_entries sample_codec
      (JSON_write_entries sample_codec (JSON_image (collection ?s (prompts ?s)))) =
      Some (JSON_image (collection ?s (prompts ?s)))"
    by (simp add: image sample_codec_def)
  let ?s1 = "handleSavePreset sample_codec (Some (js '' warm '')) ?s"
  have m1: "map_objs ?s1 = map_objs ?s" "prompts ?s1 = prompts ?s"
    "prompt_objs ?s1 = prompt_objs ?s" "next_ref ?s1 = next_ref ?s"
    using name by (simp_all add: handleSavePreset_def Let_def)
  have known: "Map_get (map_objs ?s1 (prompts ?s1)) (promptId sample_edit) = Some 1"
    by (simp add: m1) (simp add: sample_defs sample_edit_def Map_get_def)
  have later: "presets sample_later = presets ?s1"
    "selectedPresetName sample_later = selectedPresetName ?s1"
    by (simp_all add: sample_later_def handlePromptChanged_known [OF known])
  have edited: "collection sample_later (prompts sample_later) =
      [(js ''prompt-0'', bossa), (js ''prompt-1'', sample_edit)]"
    unfolding sample_later_def handlePromptChanged_known [OF known]
    by (simp add: m1 collection_def) (simp add: sample_defs sample_edit_def new_Map_def)
  from save_then_load_roundtrip [OF name proto ok nonempty codec later] exact
  have "collection (handleLoadPreset sample_codec sample_later)
      (prompts (handleLoadPreset sample_codec sample_later)) = collection ?s (prompts ?s)"
    by blast
  with tr ok exact str prs edited c show ?thesis by simp
qed

text \<open>
  C4, as the claim states it, fails: the empty string is a payload whose deserialization
  fails, and loading the preset that holds it raises no error notification. On the
  sample page with the preset \<open>third\<close> selected, nothing is dispatched.
\<close>

theorem empty_payload_load_counterexample:
  "obj_get (presets (handlePresetSelectionChange (js ''third'') (sample_page (Some sample_stored))))
     (selectedPresetName (handlePresetSelectionChange (js ''third'') (sample_page (Some sample_stored))))
     = Some [] \<and>
   JSON_parse_entries sample_codec [] = None \<and>
   dispatched (handleLoadPreset sample_codec
     (handlePresetSelectionChange (js ''third'') (sample_page (Some sample_stored)))) = []"
  by (simp add: sample_defs handlePresetSelectionChange_def handleLoadPreset_def obj_get_def
      obj_read_def truthy_def)

text \<open>
  C4, amended. Let the selected preset hold a payload that \<open>JSON.parse\<close> rejects. If
  the payload and the selected name are not empty, the \<open>try\<close> block throws, and the
  handler catches it: the only changes are a console message and the error event
  \<open>Failed to load preset. It might be corrupted.\<close> If the payload or the selected name is
  the empty string, the handler returns before the \<open>try\<close> block and changes nothing,
  so no notification is raised. In both cases \<open>this.prompts\<close> and the store are as
  before: the current collection is unchanged.
\<close>

theorem corrupt_preset_load_reported:
  assumes get: "obj_get (presets s) (selectedPresetName s) = Some payload"
    and bad: "JSON_parse_entries J payload = None"
  shows "(selectedPresetName s \<noteq> [] \<and> payload \<noteq> [] \<longrightarrow>
            handleLoadPreset_try J s = Inl SyntaxError \<and>
            handleLoadPreset J s =
              s\<lparr>console_errors := console_errors s @ [''Failed to load preset''],
                dispatched := dispatched s @
                  [ErrorEvent ''Failed to load preset. It might be corrupted.'']\<rparr>) \<and>
         (selectedPresetName s = [] \<or> payload = [] \<longrightarrow> handleLoadPreset J s = s) \<and>
         prompts (handleLoadPreset J s) = prompts s \<and>
         map_objs (handleLoadPreset J s) = map_objs s \<and>
         prompt_objs (handleLoadPreset J s) = prompt_objs s \<and>
         collection (handleLoadPreset J s) (prompts s) = collection s (prompts s)"
  using bad
  by (auto simp: handleLoadPreset_def handleLoadPreset_try_def truthy_def collection_def
      obj_read_own [OF get])

theorem corrupt_preset_load_reported_witness:
  "obj_get (presets (handlePresetSelectionChange (js ''second'') (sample_page (Some sample_stored))))
     (selectedPresetName (handlePresetSelectionChange (js ''second'') (sample_page (Some sample_stored))))
     = Some (js ''{oops'') \<and>
   JSON_parse_entries sample_codec (js ''{oops'') = None \<and>
   dispatched (handleLoadPreset sample_codec
     (handlePresetSelectionChange (js ''second'') (sample_page (Some sample_stored)))) =
     [ErrorEvent ''Failed to load preset. It might be corrupted.''] \<and>
   collection (handleLoadPreset sample_codec
     (handlePresetSelectionChange (js ''second'') (sample_page (Some sample_stored)))) 2 =
     sample_entries"
proof -
  let ?s = "handlePresetSelectionChange (js ''second'') (sample_page (Some sample_stored))"
  have get: "obj_get (presets ?s) (selectedPresetName ?s) = Some (js ''{oops'')"
    by (simp add: sample_defs handlePresetSelectionChange_def obj_get_def)
  have bad: "JSON_parse_entries sample_codec (js ''{oops'') = None"
    by (simp add: sample_defs)
  have sel: "selectedPresetName ?s \<noteq> []" and payload: "js ''{oops'' \<noteq> []"
    by (simp_all add: handlePresetSelectionChange_def js_Nil_iff)
  have d: "dispatched ?s = []" and p: "prompts ?s = 2"
    and c: "collection ?s 2 = sample_entries"
    by (simp_all add: sample_defs handlePresetSelectionChange_def collection_def)
  note reported = corrupt_preset_load_reported [OF get bad]
  from reported sel payload
  have "handleLoadPreset sample_codec ?s =
      ?s\<lparr>console_errors := console_errors ?s @ [''Failed to load preset''],
         dispatched := dispatched ?s @
           [ErrorEvent ''Failed to load preset. It might be corrupted.'']\<rparr>"
    by blast
  moreover from reported
  have "collection (handleLoadPreset sample_codec ?s) (prompts ?s) = collection ?s (prompts ?s)"
    by blast
  ultimately have "dispatched (handleLoadPreset sample_codec ?s) =
      [ErrorEvent ''Failed to load preset. It might be corrupted.'']"
    and "collection (handleLoadPreset sample_codec ?s) 2 = sample_entries"
    using d p c by simp_all
  with get bad show ?thesis by simp
qed

subsection \<open>Deleting a preset\<close>

text \<open>
  C7, as the claim states it, fails: a selected preset whose payload is the empty string
  is not removed by a confirmed delete. On the sample page with the preset \<open>third\<close>
  selected, the preset is still there after the handler.
\<close>

theorem empty_payload_delete_counterexample:
  "selectedPresetName
     (handlePresetSelectionChange (js ''third'') (sample_page (Some sample_stored)))
     = js ''third'' \<and>
   obj_get
     (presets (handlePresetSelectionChange (js ''third'') (sample_page (Some sample_stored))))
     (js ''third'') = Some [] \<and>
   obj_get (presets (handleDeletePreset sample_codec True
     (handlePresetSelectionChange (js ''third'') (sample_page (Some sample_stored)))))
     (js ''third'') = Some []"
  by (simp add: sample_defs handlePresetSelectionChange_def handleDeletePreset_def obj_get_def
      obj_read_def truthy_def)

text \<open>
  C7, amended. The handler deletes the selected preset and no other: a preset under
  another name is never touched. It is a no-op when the selected name is empty, when it
  names no preset and is not a name that \<open>Object.prototype\<close> defines, when it names a
  preset whose payload is the empty string, and when the user does not confirm. When the
  selected name is not empty and names a preset with a payload that is not empty, and
  the user confirms, the preset is removed, the remaining presets keep their order and
  are written to \<open>localStorage\<close>, and the selection becomes the first remaining name, or
  the empty string when none remains.
\<close>

theorem delete_selected_preset:
  "(\<forall>k. k \<noteq> selectedPresetName s \<longrightarrow>
        obj_get (presets (handleDeletePreset J c s)) k = obj_get (presets s) k) \<and>
   (selectedPresetName s = [] \<or>
    (obj_get (presets s) (selectedPresetName s) = None \<and>
     selectedPresetName s \<notin> set Object_prototype_names) \<or>
    obj_get (presets s) (selectedPresetName s) = Some [] \<or> \<not> c \<longrightarrow>
      handleDeletePreset J c s = s) \<and>
   (selectedPresetName s \<noteq> [] \<and> obj_get (presets s) (selectedPresetName s) = Some p \<and>
    p \<noteq> [] \<and> c \<longrightarrow>
      presets (handleDeletePreset J c s) = obj_delete (presets s) (selectedPresetName s) \<and>
      obj_get (presets (handleDeletePreset J c s)) (selectedPresetName s) = None \<and>
      Object_keys (presets (handleDeletePreset J c s)) =
        filter (\<lambda>k. k \<noteq> selectedPresetName s) (Object_keys (presets s)) \<and>
      localStorage (handleDeletePreset J c s) presets_key =
        Some (JSON_stringify_presets J (presets (handleDeletePreset J c s))) \<and>
      selectedPresetName (handleDeletePreset J c s) =
        (case Object_keys (presets (handleDeletePreset J c s)) of [] \<Rightarrow> [] | n # ns \<Rightarrow> n))"
proof -
  have others: "\<forall>k. k \<noteq> selectedPresetName s \<longrightarrow>
        obj_get (presets (handleDeletePreset J c s)) k = obj_get (presets s) k"
    by (simp add: handleDeletePreset_def Let_def spread_def obj_get_obj_delete)
  have noop: "selectedPresetName s = [] \<or>
      (obj_get (presets s) (selectedPresetName s) = None \<and>
       selectedPresetName s \<notin> set Object_prototype_names) \<or>
      obj_get (presets s) (selectedPresetName s) = Some [] \<or> \<not> c \<longrightarrow>
      handleDeletePreset J c s = s"
    by (auto simp: handleDeletePreset_def obj_read_def truthy_def)
  have removed:
    "presets (handleDeletePreset J c s) = obj_delete (presets s) (selectedPresetName s) \<and>
     obj_get (presets (handleDeletePreset J c s)) (selectedPresetName s) = None \<and>
     Object_keys (presets (handleDeletePreset J c s)) =
       filter (\<lambda>k. k \<noteq> selectedPresetName s) (Object_keys (presets s)) \<and>
     localStorage (handleDeletePreset J c s) presets_key =
       Some (JSON_stringify_presets J (presets (handleDeletePreset J c s))) \<and>
     selectedPresetName (handleDeletePreset J c s) =
       (case Object_keys (presets (handleDeletePreset J c s)) of [] \<Rightarrow> [] | n # ns \<Rightarrow> n)"
    if "selectedPresetName s \<noteq> []" "obj_get (presets s) (selectedPresetName s) = Some p"
      "p \<noteq> []" c
    using that
    by (simp add: handleDeletePreset_def obj_read_def truthy_def Let_def spread_def
        obj_get_obj_delete Object_keys_obj_delete)
  from others noop removed show ?thesis by blast
qed

theorem delete_selected_preset_witness:
  "selectedPresetName (sample_page (Some sample_stored)) = js ''first'' \<and>
   obj_get (presets (sample_page (Some sample_stored))) (js ''first'') = Some (js ''[]'') \<and>
   Object_keys (presets (handleDeletePreset sample_codec True (sample_page (Some sample_stored))))
     = [js ''second'', js ''third''] \<and>
   selectedPresetName (handleDeletePreset sample_codec True (sample_page (Some sample_stored)))
     = js ''second'' \<and>
   obj_get (presets (handleDeletePreset sample_codec True (sample_page (Some sample_stored))))
     (js ''second'') = Some (js ''{oops'') \<and>
   handleDeletePreset sample_codec True
     (handlePresetSelectionChange (js ''fourth'') (sample_page (Some sample_stored))) =
     handlePresetSelectionChange (js ''fourth'') (sample_page (Some sample_stored))"
proof -
  let ?s = "sample_page (Some sample_stored)"
  let ?d = "handleDeletePreset sample_codec True ?s"
  let ?u = "handlePresetSelectionChange (js ''fourth'') ?s"
  have sel: "selectedPresetName ?s = js ''first''"
    by (simp add: sample_defs)
  have ps: "presets ?s = sample_presets"
    by (simp add: sample_defs)
  have get: "obj_get (presets ?s) (selectedPresetName ?s) = Some (js ''[]'')"
    by (simp add: sel ps sample_presets_def obj_get_def js_eq_iff)
  have named: "selectedPresetName ?s \<noteq> []"
    and other_name: "js ''second'' \<noteq> selectedPresetName ?s"
    and payload: "js ''[]'' \<noteq> []"
    by (simp_all add: sel js_eq_iff js_Nil_iff)
  note del = delete_selected_preset [of ?s sample_codec True "js ''[]''"]
  from del named get payload
  have keys: "Object_keys (presets ?d) =
      filter (\<lambda>k. k \<noteq> selectedPresetName ?s) (Object_keys (presets ?s))"
    and first: "selectedPresetName ?d =
      (case Object_keys (presets ?d) of [] \<Rightarrow> [] | n # ns \<Rightarrow> n)"
    by blast+
  from del other_name
  have other: "obj_get (presets ?d) (js ''second'') = obj_get (presets ?s) (js ''second'')"
    by blast
  have k: "Object_keys (presets ?d) = [js ''second'', js ''third'']"
    unfolding keys by (simp add: sel ps sample_presets_def Object_keys_def js_eq_iff)
  have unknown: "obj_get (presets ?u) (selectedPresetName ?u) = None \<and>
      selectedPresetName ?u \<notin> set Object_prototype_names"
    by (simp add: handlePresetSelectionChange_def ps sample_presets_def obj_get_def
        Object_prototype_names_def js_eq_iff)
  with delete_selected_preset [of ?u sample_codec True]
  have noop: "handleDeletePreset sample_codec True ?u = ?u"
    by blast
  from sel get k first other noop show ?thesis
    by (simp add: ps sample_presets_def obj_get_def js_eq_iff)
qed

text \<open>
  Beside the claim: a selected name that is no preset but is defined by
  \<open>Object.prototype\<close>, as \<open>__proto__\<close> is after a save under that name. The guard reads
  the inherited value and lets the handler go on: once confirmed, no preset is removed,
  but the selection moves to the first preset and the presets are written again.
\<close>

lemma handleDeletePreset_inherited:
  assumes "selectedPresetName s \<noteq> []"
    and "obj_get (presets s) (selectedPresetName s) = None"
    and "selectedPresetName s \<in> set Object_prototype_names"
  shows "presets (handleDeletePreset J True s) = presets s \<and>
         selectedPresetName (handleDeletePreset J True s) =
           (case Object_keys (presets s) of [] \<Rightarrow> [] | n # ns \<Rightarrow> n) \<and>
         localStorage (handleDeletePreset J True s) presets_key =
           Some (JSON_stringify_presets J (presets s))"
proof -
  have "obj_delete (presets s) (selectedPresetName s) = presets s"
    using assms(2)
    by (auto simp: obj_delete_def obj_get_def map_of_eq_None_iff filter_id_conv image_iff)
  with assms show ?thesis
    by (simp add: handleDeletePreset_def obj_read_def truthy_def Let_def spread_def)
qed

text \<open>
  A save under the name \<open>__proto__\<close> stores no preset; it selects the name and writes the
  presets, which are the ones before.
\<close>

lemma handleSavePreset_proto:
  assumes "trim n = js ''__proto__''"
    and "obj_get (presets s) (js ''__proto__'') = None"
  shows "presets (handleSavePreset J (Some n) s) = presets s \<and>
         selectedPresetName (handleSavePreset J (Some n) s) = js ''__proto__''"
proof -
  have "trim n \<noteq> []"
    by (simp add: assms(1) js_Nil_iff)
  from handleSavePreset_named [OF this, of J s] assms show ?thesis
    by (simp add: obj_set_def)
qed

subsection \<open>Startup\<close>

text \<open>
  C8, as the claim states it, fails: the empty string under the presets' key is not JSON,
  and startup does not clear it from the store.
\<close>

theorem empty_stored_value_counterexample:
  "JSON_parse_presets sample_codec [] = None \<and>
   localStorage (sample_page (Some [])) presets_key = Some []"
  by (simp add: sample_defs)

text \<open>
  C8, amended. Let the value stored under \<open>prompt-dj-presets\<close> be one that
  \<open>JSON.parse\<close> rejects. The component is constructed all the same: its presets are
  empty, nothing is selected, no event is dispatched and the prompts are the initial ones.
  The \<open>try\<close> block throws on such a value, whatever the state. If the stored value is
  not the empty string, the \<open>catch\<close> block removes it from \<open>localStorage\<close>; if it is
  the empty string, the \<open>try\<close> block is not entered and \<open>localStorage\<close> is left as
  it is.
\<close>

theorem corrupt_storage_at_startup:
  assumes "storage presets_key = Some v"
    and "JSON_parse_presets J v = None"
  shows "presets (constructor J objs maps nxt storage ip) = [] \<and>
         selectedPresetName (constructor J objs maps nxt storage ip) = [] \<and>
         dispatched (constructor J objs maps nxt storage ip) = [] \<and>
         prompts (constructor J objs maps nxt storage ip) = ip \<and>
         loadPresetsFromStorage_try J v s = Inl SyntaxError \<and>
         (v \<noteq> [] \<longrightarrow>
            localStorage (constructor J objs maps nxt storage ip) =
              storage(presets_key := None)) \<and>
         (v = [] \<longrightarrow> localStorage (constructor J objs maps nxt storage ip) = storage)"
  using assms
  by (simp add: constructor_def loadPresetsFromStorage_def loadPresetsFromStorage_try_def)

theorem corrupt_storage_at_startup_witness:
  "JSON_parse_presets sample_codec (js ''{oops'') = None \<and>
   presets (sample_page (Some (js ''{oops''))) = [] \<and>
   selectedPresetName (sample_page (Some (js ''{oops''))) = [] \<and>
   localStorage (sample_page (Some (js ''{oops''))) presets_key = None"
proof -
  have bad: "JSON_parse_presets sample_codec (js ''{oops'') = None"
    by (simp add: sample_defs)
  from corrupt_storage_at_startup
    [where storage = "\<lambda>k. if k = presets_key then Some (js ''{oops'') else None"
       and v = "js ''{oops''" and J = sample_codec] bad
  show ?thesis by (simp add: sample_page_def js_Nil_iff)
qed

text \<open>
  C10. Let \<open>JSON.parse\<close> reject the empty string, as the platform's does. If the stored
  value parses to an object with at least one preset, startup makes that object the
  presets and selects its first name, in the order \<open>Object.keys\<close> lists the names. If
  nothing is stored, or the stored value does not parse, the selection stays empty.
\<close>

theorem startup_selection:
  assumes "JSON_parse_presets J [] = None"
  shows "(storage presets_key = Some v \<and> JSON_parse_presets J v = Some ob \<and> ob \<noteq> [] \<longrightarrow>
            presets (constructor J objs maps nxt storage ip) = ob \<and>
            selectedPresetName (constructor J objs maps nxt storage ip) = hd (Object_keys ob)) \<and>
         (storage presets_key = None \<or>
          (storage presets_key = Some v \<and> JSON_parse_presets J v = None) \<longrightarrow>
            selectedPresetName (constructor J objs maps nxt storage ip) = [] \<and>
            presets (constructor J objs maps nxt storage ip) = [])"
  using assms
  by (cases ob)
    (auto simp: constructor_def loadPresetsFromStorage_def loadPresetsFromStorage_try_def
      Object_keys_def)

theorem startup_selection_witness:
  "JSON_parse_presets sample_codec [] = None \<and>
   JSON_parse_presets sample_codec sample_stored = Some sample_presets \<and>
   selectedPresetName (sample_page (Some sample_stored)) = js ''first'' \<and>
   selectedPresetName (sample_page None) = [] \<and>
   selectedPresetName (sample_page (Some (js ''{oops''))) = []"
proof -
  have empty: "JSON_parse_presets sample_codec [] = None"
    and good: "JSON_parse_presets sample_codec sample_stored = Some sample_presets"
    and bad: "JSON_parse_presets sample_codec (js ''{oops'') = None"
    by (simp_all add: sample_defs)
  note start = startup_selection [OF empty]
  from start [of "\<lambda>k. if k = presets_key then Some sample_stored else None" sample_stored
      sample_presets] good
  have "selectedPresetName (sample_page (Some sample_stored)) = hd (Object_keys sample_presets)"
    by (simp add: sample_page_def sample_presets_def)
  moreover from start [of "\<lambda>k. if k = presets_key then None else None"]
  have "selectedPresetName (sample_page None) = []"
    by (simp add: sample_page_def)
  moreover from start [of "\<lambda>k. if k = presets_key then Some (js ''{oops'') else None"
      "js ''{oops''"] bad
  have "selectedPresetName (sample_page (Some (js ''{oops''))) = []"
    by (simp add: sample_page_def)
  ultimately show ?thesis
    using empty good by (simp add: sample_presets_def Object_keys_def)
qed


end
